theory Spec2Isabelle
  imports Main "HOL-Library.AList"
begin

section \<open>JavaScript values and the operations the sources use on them\<close>

text \<open>
  The interaction payload is the result of \<^verbatim>\<open>JSON.parse\<close> (webhook transport) or a
  gateway packet: a JSON value. Objects are association lists in property order; a
  property is the first binding of its name. Numbers are the integers (wire codes and
  counters; fractions play no part in the code modelled here).
\<close>

datatype jv =
    JUndefined
  | JNull
  | JBool bool
  | JNum int
  | JStr string
  | JArr "jv list"
  | JObj "(string \<times> jv) list"

text \<open>
  \<^verbatim>\<open>TypeError\<close> is what the engine throws on a property read of
  \<^verbatim>\<open>undefined\<close>/\<^verbatim>\<open>null\<close>, on a call of a non-function and, in strict mode (both
  sources start with \<^verbatim>\<open>'use strict'\<close>), on a property write to a primitive.
  \<^verbatim>\<open>Failure\<close> is an exception raised by a collaborator that is not part of the sources
  (entity managers, constructors, the REST client, the parser), named by the collaborator.
  \<^verbatim>\<open>Unmodelled\<close> marks inputs on which the engine consults built-in prototype
  members (a table that is an array or a string, a key such as \<^verbatim>\<open>constructor\<close>, a key
  that is an array or an object); the embedding does not describe the code there and no
  theorem draws on that outcome.
\<close>

datatype error = TypeError | Failure string | Unmodelled

type_synonym 'a result = "error + 'a"

definition bnd :: "'a result \<Rightarrow> ('a \<Rightarrow> 'b result) \<Rightarrow> 'b result" where
  "bnd m f = (case m of Inl e \<Rightarrow> Inl e | Inr x \<Rightarrow> f x)"

text \<open>
  \<^verbatim>\<open>v.k\<close> for the property names written in the sources (\<^verbatim>\<open>type\<close>, \<^verbatim>\<open>name\<close>,
  \<^verbatim>\<open>value\<close>, \<^verbatim>\<open>options\<close>, \<^verbatim>\<open>data\<close>, \<^verbatim>\<open>resolved\<close>, \<^verbatim>\<open>users\<close>, \<^verbatim>\<open>members\<close>,
  \<^verbatim>\<open>channels\<close>, \<^verbatim>\<open>roles\<close>, \<^verbatim>\<open>user\<close>, \<^verbatim>\<open>id\<close>, \<^verbatim>\<open>token\<close>): none of them is a built-in member
  of arrays, strings, numbers, booleans or of \<^verbatim>\<open>Object.prototype\<close>, so the read gives
  \<^verbatim>\<open>undefined\<close> wherever it is not an own property of an object.
\<close>

fun js_get :: "jv \<Rightarrow> string \<Rightarrow> jv result" where
  "js_get JUndefined k = Inl TypeError"
| "js_get JNull k = Inl TypeError"
| "js_get (JObj kvs) k = Inr (case map_of kvs k of Some v \<Rightarrow> v | None \<Rightarrow> JUndefined)"
| "js_get v k = Inr JUndefined"

definition Object_prototype_names :: "string list" where
  "Object_prototype_names =
     [''constructor'', ''__proto__'', ''hasOwnProperty'', ''isPrototypeOf'',
      ''propertyIsEnumerable'', ''toString'', ''toLocaleString'', ''valueOf'',
      ''__defineGetter__'', ''__defineSetter__'', ''__lookupGetter__'', ''__lookupSetter__'']"

text \<open>
  The property key a computed key stands for (\<^verbatim>\<open>ToPropertyKey\<close>): a string is its own
  key, \<^verbatim>\<open>undefined\<close>, \<^verbatim>\<open>null\<close> and the booleans are their names, and an integer that a
  double holds exactly (at most 9007199254740992 in size) is its decimal numeral. An array or an
  object is converted through its \<^verbatim>\<open>toString\<close>, a built-in member, and is left out.
\<close>

fun decimal :: "nat \<Rightarrow> string" where
  "decimal n =
     (if n < 10 then [char_of (48 + n)] else decimal (n div 10) @ [char_of (48 + n mod 10)])"

fun property_key :: "jv \<Rightarrow> string option" where
  "property_key (JStr k) = Some k"
| "property_key (JNum n) =
     (if \<bar>n\<bar> \<le> 9007199254740992
      then Some (if n < 0 then CHR ''-'' # decimal (nat (- n)) else decimal (nat n))
      else None)"
| "property_key (JBool b) = Some (if b then ''true'' else ''false'')"
| "property_key JNull = Some ''null''"
| "property_key JUndefined = Some ''undefined''"
| "property_key v = None"

text \<open>
  \<^verbatim>\<open>table[key]\<close> with a computed key, as in \<^verbatim>\<open>data.data.resolved.users[o.value]\<close>.
  A table that is \<^verbatim>\<open>undefined\<close> or \<^verbatim>\<open>null\<close> throws, whatever the key. On an object table
  the key reads the own property of that name; a key that is not an own property gives
  \<^verbatim>\<open>undefined\<close>, unless it names a member inherited from \<^verbatim>\<open>Object.prototype\<close>, which is
  a native function or object and no JSON value.
\<close>

fun js_index :: "jv \<Rightarrow> jv \<Rightarrow> jv result" where
  "js_index JUndefined key = Inl TypeError"
| "js_index JNull key = Inl TypeError"
| "js_index (JObj kvs) key =
     (case property_key key of
        None \<Rightarrow> Inl Unmodelled
      | Some k \<Rightarrow>
          (case map_of kvs k of
             Some v \<Rightarrow> Inr v
           | None \<Rightarrow> if k \<in> set Object_prototype_names then Inl Unmodelled else Inr JUndefined))"
| "js_index tbl key = Inl Unmodelled"

text \<open>Truthiness, as tested by \<^verbatim>\<open>if (rawMember)\<close> and \<^verbatim>\<open>rawMember ? \<dots> : null\<close>.\<close>

fun truthy :: "jv \<Rightarrow> bool" where
  "truthy JUndefined = False"
| "truthy JNull = False"
| "truthy (JBool b) = b"
| "truthy (JNum n) = (n \<noteq> 0)"
| "truthy (JStr s) = (s \<noteq> [])"
| "truthy (JArr xs) = True"
| "truthy (JObj kvs) = True"

text \<open>
  \<^verbatim>\<open>target.k = v\<close> on a truthy target (the only use, \<^verbatim>\<open>rawMember.user = rawUser\<close>, is
  guarded by \<^verbatim>\<open>if (rawMember)\<close>): an object gets the property, in place when it has it
  and appended otherwise; a primitive throws in strict mode; an array would get a named
  property, which \<^typ>\<open>jv\<close> cannot hold.
\<close>

fun js_set :: "jv \<Rightarrow> string \<Rightarrow> jv \<Rightarrow> jv result" where
  "js_set (JObj kvs) k v = Inr (JObj (AList.update k v kvs))"
| "js_set (JArr xs) k v = Inl Unmodelled"
| "js_set target k v = Inl TypeError"

text \<open>Running a list of computations in order; the first exception ends the run.\<close>

fun sequence :: "'a result list \<Rightarrow> 'a list result" where
  "sequence [] = Inr []"
| "sequence (m # ms) =
     (case m of
        Inl e \<Rightarrow> Inl e
      | Inr x \<Rightarrow> (case sequence ms of Inl e \<Rightarrow> Inl e | Inr xs \<Rightarrow> Inr (x # xs)))"

text \<open>
  \<^verbatim>\<open>v.map(f)\<close>: on an array, \<^verbatim>\<open>f\<close> is applied to the elements from left to right. On
  \<^verbatim>\<open>undefined\<close>/\<^verbatim>\<open>null\<close> the property read throws; on any other JSON value \<^verbatim>\<open>v.map\<close> is
  not a function (a string, number or boolean has none, and a parsed object holds no
  function) and the call throws. All of these are \<^verbatim>\<open>TypeError\<close>.
\<close>

definition js_array_map :: "(jv \<Rightarrow> 'a result) \<Rightarrow> jv \<Rightarrow> 'a list result" where
  "js_array_map f v = (case v of JArr xs \<Rightarrow> sequence (map f xs) | _ \<Rightarrow> Inl TypeError)"

section \<open>Constants\<close>

text \<open>
  Modelled from the spec: \<^verbatim>\<open>util/Constants\<close> is not among the sources. The spec (section 6)
  says that option-type names stand for wire-protocol numeric codes and names the option
  kinds (section 3) in the order of the switch; the enumerations below number the names
  from 1 in that order, as the interaction protocol does. Each enumeration object maps a
  name to its code and a code back to its name.
\<close>

definition InteractionType_PING :: int where "InteractionType_PING = 1"
definition InteractionType_APPLICATION_COMMAND :: int where "InteractionType_APPLICATION_COMMAND = 2"

definition SUB_COMMAND :: int where "SUB_COMMAND = 1"
definition SUB_COMMAND_GROUP :: int where "SUB_COMMAND_GROUP = 2"
definition STRING :: int where "STRING = 3"
definition INTEGER :: int where "INTEGER = 4"
definition BOOLEAN :: int where "BOOLEAN = 5"
definition USER :: int where "USER = 6"
definition CHANNEL :: int where "CHANNEL = 7"
definition ROLE :: int where "ROLE = 8"

lemmas option_type_defs =
  SUB_COMMAND_def SUB_COMMAND_GROUP_def STRING_def INTEGER_def BOOLEAN_def USER_def
  CHANNEL_def ROLE_def

text \<open>\<^verbatim>\<open>ApplicationCommandOptionType[o.type]\<close>, the code-to-name direction of the enumeration.\<close>

definition ApplicationCommandOptionType_at :: "jv \<Rightarrow> jv" where
  "ApplicationCommandOptionType_at t =
     (if t = JNum SUB_COMMAND then JStr ''SUB_COMMAND''
      else if t = JNum SUB_COMMAND_GROUP then JStr ''SUB_COMMAND_GROUP''
      else if t = JNum STRING then JStr ''STRING''
      else if t = JNum INTEGER then JStr ''INTEGER''
      else if t = JNum BOOLEAN then JStr ''BOOLEAN''
      else if t = JNum USER then JStr ''USER''
      else if t = JNum CHANNEL then JStr ''CHANNEL''
      else if t = JNum ROLE then JStr ''ROLE''
      else JUndefined)"

text \<open>The kinds of acknowledgment, \<^verbatim>\<open>InteractionResponseType\<close>, by name.\<close>

datatype response_type =
    PONG
  | CHANNEL_MESSAGE_WITH_SOURCE
  | DEFERRED_CHANNEL_MESSAGE_WITH_SOURCE

section \<open>Collaborators outside the sources\<close>

text \<open>
  Entities (users, members, channels, roles) are built by classes and managers that are
  not among the sources; \<^typ>\<open>'e\<close> is the type of their objects and every call into them
  is a parameter, which may raise.

  A guild, when the interaction has one (\<^verbatim>\<open>this.guild\<close>, set by the base class
  \<^verbatim>\<open>Interaction\<close>): \<^verbatim>\<open>guild.members.add(raw, false)\<close>, whose result may be
  \<^verbatim>\<open>undefined\<close>/\<^verbatim>\<open>null\<close> (\<open>None\<close>), and \<^verbatim>\<open>guild.roles.add(raw, false)\<close>.
\<close>

record 'e guild =
  members_add :: "jv \<Rightarrow> 'e option result"
  roles_add :: "jv \<Rightarrow> 'e result"

text \<open>
  What the base class \<^verbatim>\<open>Interaction\<close> (not among the sources) sets on the instance and
  this code reads back: \<^verbatim>\<open>this.applicationID\<close>, \<^verbatim>\<open>this.token\<close> and \<^verbatim>\<open>this.guild\<close>
  (\<open>None\<close> when the interaction has no guild context).
\<close>

record 'e base =
  applicationID :: jv
  token :: jv
  guild :: "'e guild option"

text \<open>
  The client: \<^verbatim>\<open>client.users\<close> and \<^verbatim>\<open>client.channels\<close> are present on a full client
  and absent on a bare \<^verbatim>\<open>InteractionClient\<close>; \<^verbatim>\<open>new User(client, raw)\<close>,
  \<^verbatim>\<open>new Role(client, raw, undefined)\<close> and \<^verbatim>\<open>Channel.create(client, raw, guild)\<close> build
  standalone entities; \<^verbatim>\<open>super(client, data)\<close> runs the base constructor.
\<close>

record 'e client =
  users_add :: "(jv \<Rightarrow> 'e result) option"
  channels_add :: "(jv \<Rightarrow> 'e result) option"
  new_User :: "jv \<Rightarrow> 'e result"
  new_Role :: "jv \<Rightarrow> 'e result"
  Channel_create :: "jv \<Rightarrow> 'e guild option \<Rightarrow> 'e result"
  Interaction_super :: "jv \<Rightarrow> 'e base result"

section \<open>\<^verbatim>\<open>CommandInteraction\<close>: the option tree\<close>

text \<open>
  The values \<^verbatim>\<open>map\<close> returns: \<^verbatim>\<open>{name, type, options}\<close>, \<^verbatim>\<open>{name, type, value}\<close>,
  \<^verbatim>\<open>{name, type, user, member}\<close> (member \<open>None\<close> is \<^verbatim>\<open>null\<close>), \<^verbatim>\<open>{name, type, channel}\<close>,
  \<^verbatim>\<open>{name, type, role}\<close>, and the raw node itself in the default case.
\<close>

datatype 'e node =
    NOptions jv jv "'e node list"
  | NValue jv jv jv
  | NUser jv jv 'e "'e option"
  | NChannel jv jv 'e
  | NRole jv jv 'e
  | NRaw jv

lemma size_js_get: "js_get v k = Inr w \<Longrightarrow> size w \<le> size v"
proof (cases v)
  case (JObj kvs)
  have "map_of kvs k = Some u \<Longrightarrow> size u \<le> size_list (size_prod (\<lambda>_. 0) size) kvs" for u
    by (induction kvs) (auto split: if_splits)
  with JObj show "js_get v k = Inr w \<Longrightarrow> size w \<le> size v"
    by (auto split: option.splits)
qed auto

lemma size_JArr_elem: "x \<in> set xs \<Longrightarrow> size x < size (JArr xs)"
  by (induction xs) auto

lemma bnd_cong [fundef_cong]:
  "m = m' \<Longrightarrow> (\<And>x. m' = Inr x \<Longrightarrow> f x = f' x) \<Longrightarrow> bnd m f = bnd m' f'"
  by (auto simp: bnd_def split: sum.splits)

lemma js_array_map_cong [fundef_cong]:
  "v = v' \<Longrightarrow> (\<And>xs x. v' = JArr xs \<Longrightarrow> x \<in> set xs \<Longrightarrow> f x = f' x)
     \<Longrightarrow> js_array_map f v = js_array_map f' v'"
  by (auto simp: js_array_map_def split: jv.splits intro!: arg_cong [where f = sequence])

text \<open>
  The arrow function \<^verbatim>\<open>map\<close> of the constructor (lines 35-101). It closes over the
  client, over \<^verbatim>\<open>this.guild\<close> and over the payload \<^verbatim>\<open>data\<close>, whose
  \<^verbatim>\<open>data.resolved\<close> tables it reads. The switch compares \<^verbatim>\<open>o.type\<close> with \<^verbatim>\<open>===\<close>, in
  the order of the cases; cases with the same body are written as one branch.

  In the \<^verbatim>\<open>USER\<close> case the write \<^verbatim>\<open>rawMember.user = rawUser\<close> changes the member payload
  inside \<^verbatim>\<open>data\<close>. The only later reads of that payload are by this same case for an
  option with the same value, which writes the same user payload into it again before
  using it; so the payload handed to \<^verbatim>\<open>members.add\<close> is the one computed here, and
  \<^verbatim>\<open>data\<close> need not be threaded through.
\<close>

function map_opt :: "'e client \<Rightarrow> 'e guild option \<Rightarrow> jv \<Rightarrow> jv \<Rightarrow> 'e node result" where
  "map_opt cl g data opt =
     bnd (js_get opt ''type'') (\<lambda>t.
       if t = JNum SUB_COMMAND \<or> t = JNum SUB_COMMAND_GROUP then
         bnd (js_get opt ''name'') (\<lambda>name.
         bnd (js_get opt ''options'') (\<lambda>opts.
         bnd (js_array_map (map_opt cl g data) opts) (\<lambda>os.
         Inr (NOptions name (ApplicationCommandOptionType_at t) os))))
       else if t = JNum STRING \<or> t = JNum INTEGER \<or> t = JNum BOOLEAN then
         bnd (js_get opt ''name'') (\<lambda>name.
         bnd (js_get opt ''value'') (\<lambda>v.
         Inr (NValue name (ApplicationCommandOptionType_at t) v)))
       else if t = JNum USER then
         bnd (js_get data ''data'') (\<lambda>d.
         bnd (js_get d ''resolved'') (\<lambda>resolved.
         bnd (js_get resolved ''users'') (\<lambda>users.
         bnd (js_get opt ''value'') (\<lambda>v.
         bnd (js_index users v) (\<lambda>rawUser.
         bnd (js_get resolved ''members'') (\<lambda>members.
         bnd (js_index members v) (\<lambda>rawMember.
         bnd (if truthy rawMember then js_set rawMember ''user'' rawUser else Inr rawMember)
           (\<lambda>rawMember.
         bnd (js_get opt ''name'') (\<lambda>name.
         bnd (case users_add cl of Some add \<Rightarrow> add rawUser | None \<Rightarrow> new_User cl rawUser)
           (\<lambda>user.
         bnd (if truthy rawMember
              then (case g of Some gu \<Rightarrow> members_add gu rawMember | None \<Rightarrow> Inr None)
              else Inr None) (\<lambda>member.
         Inr (NUser name (ApplicationCommandOptionType_at t) user member))))))))))))
       else if t = JNum CHANNEL then
         bnd (js_get data ''data'') (\<lambda>d.
         bnd (js_get d ''resolved'') (\<lambda>resolved.
         bnd (js_get resolved ''channels'') (\<lambda>channels.
         bnd (js_get opt ''value'') (\<lambda>v.
         bnd (js_index channels v) (\<lambda>raw.
         bnd (js_get opt ''name'') (\<lambda>name.
         bnd (case channels_add cl of Some add \<Rightarrow> add raw | None \<Rightarrow> Channel_create cl raw g)
           (\<lambda>channel.
         Inr (NChannel name (ApplicationCommandOptionType_at t) channel))))))))
       else if t = JNum ROLE then
         bnd (js_get data ''data'') (\<lambda>d.
         bnd (js_get d ''resolved'') (\<lambda>resolved.
         bnd (js_get resolved ''roles'') (\<lambda>roles.
         bnd (js_get opt ''value'') (\<lambda>v.
         bnd (js_index roles v) (\<lambda>raw.
         bnd (js_get opt ''name'') (\<lambda>name.
         bnd (case g of Some gu \<Rightarrow> roles_add gu raw | None \<Rightarrow> new_Role cl raw)
           (\<lambda>role.
         Inr (NRole name (ApplicationCommandOptionType_at t) role))))))))
       else Inr (NRaw opt))"
  by pat_completeness auto
termination
proof (relation "measure (\<lambda>(cl, g, data, opt). size opt)", goal_cases)
  case 1
  show ?case by simp
next
  case (2 cl g data opt t name opts xs x)
  from \<open>js_get opt ''options'' = Inr opts\<close> have "size opts \<le> size opt"
    by (rule size_js_get)
  moreover from \<open>x \<in> set xs\<close> have "size x < size (JArr xs)"
    by (rule size_JArr_elem)
  ultimately show ?case using \<open>opts = JArr xs\<close> by simp
qed

text \<open>
  The constructor (lines 16-108): the base constructor, \<^verbatim>\<open>data.data.id\<close>,
  \<^verbatim>\<open>data.data.name\<close>, then \<^verbatim>\<open>data.data.options.map(map)\<close>. The handle given as third
  argument is kept in \<^verbatim>\<open>this.syncHandle\<close>; its state is the race below.
\<close>

record 'e interaction =
  base :: "'e base"
  commandID :: jv
  commandName :: jv
  options :: "'e node list"

definition CommandInteraction :: "'e client \<Rightarrow> jv \<Rightarrow> 'e interaction result" where
  "CommandInteraction cl data =
     bnd (Interaction_super cl data) (\<lambda>b.
     bnd (js_get data ''data'') (\<lambda>d.
     bnd (js_get d ''id'') (\<lambda>cid.
     bnd (js_get d ''name'') (\<lambda>cname.
     bnd (js_get d ''options'') (\<lambda>opts.
     bnd (js_array_map (map_opt cl (guild b) data) opts) (\<lambda>os.
     Inr \<lparr>base = b, commandID = cid, commandName = cname, options = os\<rparr>))))))"

section \<open>The race between the timer and the reply\<close>

text \<open>An acknowledgment \<^verbatim>\<open>{type, data?}\<close>; \<open>None\<close> is an envelope with no \<^verbatim>\<open>data\<close> field.\<close>

record response =
  rtype :: response_type
  rdata :: "jv option"

text \<open>
  The message \<^verbatim>\<open>await apiMessage.resolveFiles()\<close> yields (built by \<^verbatim>\<open>APIMessage\<close>, not
  among the sources): \<^verbatim>\<open>resolved.data\<close> and \<^verbatim>\<open>resolved.files\<close>.
\<close>

record resolved =
  msg_data :: jv
  msg_files :: jv

datatype 'a promise = Pending | Fulfilled 'a

text \<open>
  What the run of one interaction does to the outside, in order. \<open>Returned r\<close> marks the
  moment \<^verbatim>\<open>handle\<close> returns \<open>r\<close> (\<open>None\<close> is \<^verbatim>\<open>undefined\<close>). \<open>Webhook_post\<close> is
  \<^verbatim>\<open>api.webhooks(applicationID, token).post({auth, data, files, query: {wait}})\<close>,
  \<open>Callback_post\<close> is \<^verbatim>\<open>api.interactions(id, token).callback.post({data, query: {wait}})\<close>,
  \<open>Res_end\<close> is \<^verbatim>\<open>res.status(n).end(body)\<close>.
\<close>

datatype body = No_body | Stringified "response option"

datatype 'e effect =
    Emit_interactionCreate "'e interaction"
  | Emit_debug jv
  | Returned "response option"
  | Webhook_post jv jv bool jv jv bool
  | Callback_post jv jv "response option" bool
  | Res_end nat body

text \<open>
  The state \<^verbatim>\<open>handle\<close> sets up for a command (lines 150-160): the flag \<^verbatim>\<open>timedOut\<close>,
  the promise \<^verbatim>\<open>directPromise\<close>, and the effects so far. \<^verbatim>\<open>handle\<close> is suspended in
  \<^verbatim>\<open>await directPromise\<close> and returns the value the promise is fulfilled with; resolving
  a promise that is already fulfilled does nothing.
\<close>

record 'e race =
  timedOut :: bool
  directPromise :: "response promise"
  trace :: "'e effect list"

definition resolve :: "response \<Rightarrow> 'e race \<Rightarrow> 'e race" where
  "resolve r w =
     (case directPromise w of
        Pending \<Rightarrow> w\<lparr>directPromise := Fulfilled r, trace := trace w @ [Returned (Some r)]\<rparr>
      | Fulfilled _ \<Rightarrow> w)"

text \<open>The callback given to \<^verbatim>\<open>setTimeout(\<dots>, 250)\<close> (lines 154-159).\<close>

definition deferred :: response where
  "deferred = \<lparr>rtype = DEFERRED_CHANNEL_MESSAGE_WITH_SOURCE, rdata = None\<rparr>"

definition timer_callback :: "'e race \<Rightarrow> 'e race" where
  "timer_callback w = resolve deferred (w\<lparr>timedOut := True\<rparr>)"

text \<open>\<^verbatim>\<open>syncHandle.reply(resolved)\<close> (lines 163-172): the value returned and the new state.\<close>

definition immediate :: "resolved \<Rightarrow> response" where
  "immediate resolved = \<lparr>rtype = CHANNEL_MESSAGE_WITH_SOURCE, rdata = Some (msg_data resolved)\<rparr>"

definition syncHandle_reply :: "resolved \<Rightarrow> 'e race \<Rightarrow> bool \<times> 'e race" where
  "syncHandle_reply resolved w =
     (if timedOut w then (False, w) else (True, resolve (immediate resolved) w))"

text \<open>
  \<^verbatim>\<open>CommandInteraction.reply\<close> from line 144 on, where the message has been built and its
  files resolved: the followup call is made when \<^verbatim>\<open>syncHandle.reply\<close> returns false.
\<close>

definition followup :: "'e interaction \<Rightarrow> resolved \<Rightarrow> 'e effect" where
  "followup i resolved =
     Webhook_post (applicationID (base i)) (token (base i)) False
       (msg_data resolved) (msg_files resolved) True"

definition reply :: "'e interaction \<Rightarrow> resolved \<Rightarrow> 'e race \<Rightarrow> 'e race" where
  "reply i resolved w =
     (case syncHandle_reply resolved w of
        (True, w') \<Rightarrow> w'
      | (False, w') \<Rightarrow> w'\<lparr>trace := trace w' @ [followup i resolved]\<rparr>)"

text \<open>
  Scheduling is cooperative: the timer callback and each arrival of a reply at line 144
  run one at a time, to completion. The timer set at line 154 fires once, 250 ms after
  \<^verbatim>\<open>handle\<close> started; a schedule lists the replies that arrive at line 144 before it
  fires and those that arrive after, each in order of arrival.
\<close>

datatype event = Timer | Reply resolved

fun step :: "'e interaction \<Rightarrow> 'e race \<Rightarrow> event \<Rightarrow> 'e race" where
  "step i w Timer = timer_callback w"
| "step i w (Reply resolved) = reply i resolved w"

record schedule =
  before_timer :: "resolved list"
  after_timer :: "resolved list"

definition timeline :: "schedule \<Rightarrow> event list" where
  "timeline sched = map Reply (before_timer sched) @ Timer # map Reply (after_timer sched)"

text \<open>
  The state when \<^verbatim>\<open>handle\<close> reaches \<^verbatim>\<open>await directPromise\<close>: the timer is armed, the
  interaction has been emitted to the listeners.
\<close>

definition initial_race :: "'e interaction \<Rightarrow> 'e race" where
  "initial_race i =
     \<lparr>timedOut = False, directPromise = Pending, trace = [Emit_interactionCreate i]\<rparr>"

definition run :: "'e interaction \<Rightarrow> event list \<Rightarrow> 'e race" where
  "run i evs = foldl (step i) (initial_race i) evs"

text \<open>The values the calls of \<^verbatim>\<open>syncHandle.reply\<close> return along a run, in order.\<close>

fun attempts :: "'e interaction \<Rightarrow> 'e race \<Rightarrow> event list \<Rightarrow> bool list" where
  "attempts i w [] = []"
| "attempts i w (Timer # evs) = attempts i (step i w Timer) evs"
| "attempts i w (Reply resolved # evs) =
     fst (syncHandle_reply resolved w) # attempts i (step i w (Reply resolved)) evs"

section \<open>\<^verbatim>\<open>InteractionClient\<close>: dispatch and the two transports\<close>

text \<open>
  \<^verbatim>\<open>handle\<close> (lines 143-191). The result is the effects of the run, in order, and the
  state of the promise \<^verbatim>\<open>handle\<close> returns: fulfilled with an envelope, fulfilled with
  \<^verbatim>\<open>undefined\<close> (\<open>Fulfilled None\<close>), or rejected (\<open>Inl\<close>). Listeners of
  \<^verbatim>\<open>interactionCreate\<close> act through the replies of the schedule.
\<close>

definition handle ::
  "'e client \<Rightarrow> jv \<Rightarrow> schedule \<Rightarrow> ('e effect list \<times> response option promise) result" where
  "handle cl data sched =
     bnd (js_get data ''type'') (\<lambda>t.
       if t = JNum InteractionType_PING then
         Inr ([Returned (Some \<lparr>rtype = PONG, rdata = None\<rparr>)],
              Fulfilled (Some \<lparr>rtype = PONG, rdata = None\<rparr>))
       else if t = JNum InteractionType_APPLICATION_COMMAND then
         bnd (CommandInteraction cl data) (\<lambda>interaction.
           let w = run interaction (timeline sched) in
           Inr (trace w,
                case directPromise w of Pending \<Rightarrow> Pending | Fulfilled r \<Rightarrow> Fulfilled (Some r)))
       else Inr ([Emit_debug t, Returned None], Fulfilled None))"

text \<open>What a caller suspended in \<^verbatim>\<open>await this.handle(data)\<close> does once \<^verbatim>\<open>handle\<close> returns.\<close>

fun after_return :: "'e effect list \<Rightarrow> 'e effect list \<Rightarrow> 'e effect list" where
  "after_return es [] = []"
| "after_return es (Returned r # tr) = Returned r # es @ tr"
| "after_return es (e # tr) = e # after_return es tr"

text \<open>\<^verbatim>\<open>handleFromGateway\<close> (lines 231-238).\<close>

definition handleFromGateway :: "'e client \<Rightarrow> jv \<Rightarrow> schedule \<Rightarrow> 'e effect list result" where
  "handleFromGateway cl data sched =
     bnd (handle cl data sched) (\<lambda>(tr, p).
       case p of
         Pending \<Rightarrow> Inr tr
       | Fulfilled result \<Rightarrow>
           bnd (js_get data ''id'') (\<lambda>i.
           bnd (js_get data ''token'') (\<lambda>tok.
           Inr (after_return [Callback_post i tok result True] tr))))"

text \<open>
  The webhook request: \<^verbatim>\<open>req.get(name)\<close> (\<open>None\<close> is \<^verbatim>\<open>undefined\<close>, the header is not
  there) and the chunks of the body. Buffers are byte strings.
\<close>

record request =
  req_get :: "string \<Rightarrow> string option"
  chunks :: "string list"

fun hex_digit :: "char \<Rightarrow> nat option" where
  "hex_digit c =
     (let n = of_char c :: nat in
      if 48 \<le> n \<and> n \<le> 57 then Some (n - 48)
      else if 97 \<le> n \<and> n \<le> 102 then Some (n - 87)
      else if 65 \<le> n \<and> n \<le> 70 then Some (n - 55)
      else None)"

text \<open>
  \<^verbatim>\<open>Buffer.from(s, 'hex')\<close>: pairs of hexadecimal digits, up to the first pair that is
  not one; \<^verbatim>\<open>Buffer.from(undefined, \<dots>)\<close> throws a \<^verbatim>\<open>TypeError\<close>.
\<close>

fun hex_bytes :: "string \<Rightarrow> string" where
  "hex_bytes (a # b # rest) =
     (case (hex_digit a, hex_digit b) of
        (Some h, Some l) \<Rightarrow> char_of (16 * h + l) # hex_bytes rest
      | _ \<Rightarrow> [])"
| "hex_bytes _ = []"

definition Buffer_from_hex :: "string option \<Rightarrow> string result" where
  "Buffer_from_hex s = (case s of None \<Rightarrow> Inl TypeError | Some h \<Rightarrow> Inr (hex_bytes h))"

text \<open>\<^verbatim>\<open>Buffer.from(s)\<close> on a header value: its bytes; \<^verbatim>\<open>undefined\<close> throws.\<close>

definition Buffer_from :: "string option \<Rightarrow> string result" where
  "Buffer_from s = (case s of None \<Rightarrow> Inl TypeError | Some h \<Rightarrow> Inr h)"

text \<open>
  What the middleware is configured with: \<^verbatim>\<open>sodium.methods.verify(signature, message,
  key)\<close> (\<^verbatim>\<open>util/Sodium\<close> is not among the sources), \<^verbatim>\<open>this.publicKey\<close> (\<open>None\<close> when no
  key was given to the constructor) and \<^verbatim>\<open>JSON.parse\<close>.
\<close>

record webhook =
  sodium_verify :: "string \<Rightarrow> string \<Rightarrow> string option \<Rightarrow> bool result"
  publicKey :: "string option"
  JSON_parse :: "string \<Rightarrow> jv result"

text \<open>The function \<^verbatim>\<open>middleware()\<close> returns (lines 199-228).\<close>

definition middleware ::
  "webhook \<Rightarrow> 'e client \<Rightarrow> request \<Rightarrow> schedule \<Rightarrow> 'e effect list result" where
  "middleware wh cl req sched =
     (let timestamp = req_get req ''x-signature-timestamp'';
          signature = req_get req ''x-signature-ed25519'';
          body = concat (chunks req) in
      bnd (Buffer_from_hex signature) (\<lambda>sig.
      bnd (Buffer_from timestamp) (\<lambda>ts.
      bnd (sodium_verify wh sig (ts @ body) (publicKey wh)) (\<lambda>valid.
        if \<not> valid then Inr [Res_end 401 No_body]
        else
          bnd (JSON_parse wh body) (\<lambda>data.
          bnd (handle cl data sched) (\<lambda>(tr, p).
            case p of
              Pending \<Rightarrow> Inr tr
            | Fulfilled result \<Rightarrow> Inr (after_return [Res_end 200 (Stringified result)] tr)))))))"

text \<open>The request carries a signature and a timestamp, and the verifier accepts them.\<close>

definition validated :: "webhook \<Rightarrow> request \<Rightarrow> bool" where
  "validated wh req =
     (case (req_get req ''x-signature-ed25519'', req_get req ''x-signature-timestamp'') of
        (Some signature, Some timestamp) \<Rightarrow>
          sodium_verify wh (hex_bytes signature) (timestamp @ concat (chunks req)) (publicKey wh)
            = Inr True
      | _ \<Rightarrow> False)"

section \<open>The shape of an option tree\<close>

text \<open>A property read that is known not to throw; \<^verbatim>\<open>undefined\<close> where it would.\<close>

definition js_prop :: "jv \<Rightarrow> string \<Rightarrow> jv" where
  "js_prop v k = (case js_get v k of Inr x \<Rightarrow> x | Inl e \<Rightarrow> JUndefined)"

text \<open>
  The skeleton of a tree of options: at each node its name and the name of its kind, and
  below a container its children in order. A node that is not a container is a leaf,
  whatever else it holds.
\<close>

datatype shape = Shape jv jv "shape list"

function raw_shape :: "jv \<Rightarrow> shape" where
  "raw_shape opt =
     Shape (js_prop opt ''name'') (ApplicationCommandOptionType_at (js_prop opt ''type''))
       (if js_prop opt ''type'' = JNum SUB_COMMAND \<or> js_prop opt ''type'' = JNum SUB_COMMAND_GROUP
        then (case js_prop opt ''options'' of JArr xs \<Rightarrow> map raw_shape xs | _ \<Rightarrow> [])
        else [])"
  by pat_completeness auto
termination
proof (relation "measure size", goal_cases)
  case 1
  show ?case by simp
next
  case (2 opt xs x)
  have "size (js_prop opt ''options'') \<le> size opt"
    by (cases "js_get opt ''options''") (auto simp: js_prop_def dest: size_js_get)
  moreover from \<open>x \<in> set xs\<close> have "size x < size (JArr xs)"
    by (rule size_JArr_elem)
  ultimately show ?case using 2(2) by simp
qed

fun node_shape :: "'e node \<Rightarrow> shape" where
  "node_shape (NOptions name ty os) = Shape name ty (map node_shape os)"
| "node_shape (NValue name ty v) = Shape name ty []"
| "node_shape (NUser name ty u m) = Shape name ty []"
| "node_shape (NChannel name ty c) = Shape name ty []"
| "node_shape (NRole name ty r) = Shape name ty []"
| "node_shape (NRaw opt) = Shape (js_prop opt ''name'') JUndefined []"

fun depth :: "shape \<Rightarrow> nat" where
  "depth (Shape name ty cs) = Suc (foldr max (map depth cs) 0)"

text \<open>
  Trees that need no entity: every node can be read, a container holds an array of such
  trees, and no node is a user, channel or role reference.
\<close>

function plain_tree :: "jv \<Rightarrow> bool" where
  "plain_tree opt =
     (case js_get opt ''type'' of
        Inl e \<Rightarrow> False
      | Inr t \<Rightarrow>
          if t = JNum SUB_COMMAND \<or> t = JNum SUB_COMMAND_GROUP
          then (case js_prop opt ''options'' of JArr xs \<Rightarrow> list_all plain_tree xs | _ \<Rightarrow> False)
          else t \<noteq> JNum USER \<and> t \<noteq> JNum CHANNEL \<and> t \<noteq> JNum ROLE)"
  by pat_completeness auto
termination
proof (relation "measure size", goal_cases)
  case 1
  show ?case by simp
next
  case (2 opt t xs x)
  have "size (js_prop opt ''options'') \<le> size opt"
    by (cases "js_get opt ''options''") (auto simp: js_prop_def dest: size_js_get)
  moreover from \<open>x \<in> set xs\<close> have "size x < size (JArr xs)"
    by (rule size_JArr_elem)
  ultimately show ?case using 2 by simp
qed

declare map_opt.simps [simp del] raw_shape.simps [simp del] plain_tree.simps [simp del]

section \<open>The first resolution of the race\<close>

definition first_response :: "schedule \<Rightarrow> response" where
  "first_response sched =
     (case before_timer sched of [] \<Rightarrow> deferred | resolved # _ \<Rightarrow> immediate resolved)"

section \<open>The member collaborator\<close>

text \<open>\<^verbatim>\<open>this.client.users ? this.client.users.add(raw, false) : new User(this.client, raw)\<close>.\<close>

definition resolve_user :: "'e client \<Rightarrow> jv \<Rightarrow> 'e result" where
  "resolve_user cl raw = (case users_add cl of Some add \<Rightarrow> add raw | None \<Rightarrow> new_User cl raw)"

text \<open>
  Modelled from the spec: the member manager behind \<^verbatim>\<open>guild.members.add\<close> is not among
  the sources. The spec (section 4.2) has the user payload merged into the member payload
  before the member is resolved through the collaborator; the member it returns takes its
  user from there: its user field \<open>user_of m\<close> is the user resolved from the \<^verbatim>\<open>user\<close>
  property of the payload the member was made from.
\<close>

definition member_user_from_payload :: "('e \<Rightarrow> 'e) \<Rightarrow> 'e client \<Rightarrow> 'e guild \<Rightarrow> bool" where
  "member_user_from_payload user_of cl gu \<longleftrightarrow>
     (\<forall>raw m. members_add gu raw = Inr (Some m) \<longrightarrow>
        resolve_user cl (js_prop raw ''user'') = Inr (user_of m))"

section \<open>Example clients and payloads\<close>

text \<open>An entity that shows which collaborator call made it, and from which payload.\<close>

datatype entity = Entity string jv

definition example_guild :: "entity guild" where
  "example_guild =
     \<lparr>members_add = (\<lambda>raw. Inr (Some (Entity ''guild.members.add'' raw))),
      roles_add = (\<lambda>raw. Inr (Entity ''guild.roles.add'' raw))\<rparr>"

text \<open>A bare \<^verbatim>\<open>InteractionClient\<close>: no entity caches, no guild.\<close>

definition bare_client :: "entity client" where
  "bare_client =
     \<lparr>users_add = None, channels_add = None,
      new_User = (\<lambda>raw. Inr (Entity ''new User'' raw)),
      new_Role = (\<lambda>raw. Inr (Entity ''new Role'' raw)),
      Channel_create = (\<lambda>raw g. Inr (Entity ''Channel.create'' raw)),
      Interaction_super = (\<lambda>data. Inr \<lparr>applicationID = js_prop data ''application_id'',
                                          token = js_prop data ''token'', guild = None\<rparr>)\<rparr>"

text \<open>A full client with its caches, the interaction coming from a guild.\<close>

definition full_client :: "entity client" where
  "full_client =
     \<lparr>users_add = Some (\<lambda>raw. Inr (Entity ''client.users.add'' raw)),
      channels_add = Some (\<lambda>raw. Inr (Entity ''client.channels.add'' raw)),
      new_User = (\<lambda>raw. Inr (Entity ''new User'' raw)),
      new_Role = (\<lambda>raw. Inr (Entity ''new Role'' raw)),
      Channel_create = (\<lambda>raw g. Inr (Entity ''Channel.create'' raw)),
      Interaction_super = (\<lambda>data. Inr \<lparr>applicationID = js_prop data ''application_id'',
                                          token = js_prop data ''token'',
                                          guild = Some example_guild\<rparr>)\<rparr>"

definition entity_user :: "entity \<Rightarrow> entity" where
  "entity_user m = (case m of Entity made raw \<Rightarrow> Entity ''client.users.add'' (js_prop raw ''user''))"

text \<open>A subcommand group holding a subcommand holding a string and an integer.\<close>

definition three_levels :: jv where
  "three_levels =
     JObj [(''type'', JNum 2), (''name'', JStr ''admin''), (''options'', JArr
       [JObj [(''type'', JNum 1), (''name'', JStr ''ban''), (''options'', JArr
         [JObj [(''type'', JNum 3), (''name'', JStr ''reason''), (''value'', JStr ''spam'')],
          JObj [(''type'', JNum 4), (''name'', JStr ''days''), (''value'', JNum 7)]])]])]"

definition three_levels_resolved :: "entity node" where
  "three_levels_resolved =
     NOptions (JStr ''admin'') (JStr ''SUB_COMMAND_GROUP'')
       [NOptions (JStr ''ban'') (JStr ''SUB_COMMAND'')
         [NValue (JStr ''reason'') (JStr ''STRING'') (JStr ''spam''),
          NValue (JStr ''days'') (JStr ''INTEGER'') (JNum 7)]]"

definition example_command :: jv where
  "example_command =
     JObj [(''id'', JStr ''100''), (''type'', JNum 2), (''token'', JStr ''tok''),
           (''application_id'', JStr ''app''),
           (''data'', JObj [(''id'', JStr ''7''), (''name'', JStr ''admin''),
                            (''options'', JArr [three_levels])])]"

definition example_interaction :: "entity interaction" where
  "example_interaction =
     \<lparr>base = \<lparr>applicationID = JStr ''app'', token = JStr ''tok'', guild = None\<rparr>,
      commandID = JStr ''7'', commandName = JStr ''admin'',
      options = [three_levels_resolved]\<rparr>"

text \<open>A command invoked with no argument, as the platform sends it: no \<^verbatim>\<open>options\<close> field.\<close>

definition command_without_options :: jv where
  "command_without_options =
     JObj [(''id'', JStr ''101''), (''type'', JNum 2), (''token'', JStr ''tok''),
           (''application_id'', JStr ''app''),
           (''data'', JObj [(''id'', JStr ''8''), (''name'', JStr ''ping'')])]"

definition unknown_interaction :: jv where
  "unknown_interaction = JObj [(''id'', JStr ''102''), (''type'', JNum 3), (''token'', JStr ''tok'')]"

definition future_option :: jv where
  "future_option = JObj [(''type'', JNum 9), (''name'', JStr ''later''), (''value'', JNum 1)]"

text \<open>An option that refers to user 42, and payloads whose tables hold or lack that user.\<close>

definition user_option :: jv where
  "user_option = JObj [(''type'', JNum 6), (''name'', JStr ''target''), (''value'', JStr ''42'')]"



definition raw_user_42 :: jv where
  "raw_user_42 = JObj [(''id'', JStr ''42''), (''username'', JStr ''ada'')]"

definition payload_with_user_and_member :: jv where
  "payload_with_user_and_member =
     JObj [(''type'', JNum 2), (''data'', JObj [(''resolved'', JObj
       [(''users'', JObj [(''42'', raw_user_42)]),
        (''members'', JObj [(''42'', JObj [(''nick'', JStr ''countess'')])])])])]"




definition first_message :: resolved where
  "first_message = \<lparr>msg_data = JObj [(''content'', JStr ''hi!'')], msg_files = JArr []\<rparr>"

definition second_message :: resolved where
  "second_message = \<lparr>msg_data = JObj [(''content'', JStr ''again'')], msg_files = JArr []\<rparr>"

text \<open>
  A webhook with a stand-in verifier, which accepts a signature exactly when it is the
  key itself; the request below carries another signature.
\<close>

definition example_webhook :: webhook where
  "example_webhook =
     \<lparr>sodium_verify = (\<lambda>signature message key. Inr (key = Some signature \<and> message \<noteq> [])),
      publicKey = Some ''K'',
      JSON_parse = (\<lambda>body. Inl (Failure ''JSON.parse''))\<rparr>"

section \<open>Basic facts\<close>

lemma bnd_Inr [simp]: "bnd (Inr x) f = f x"
  by (simp add: bnd_def)

lemma bnd_Inl [simp]: "bnd (Inl e) f = Inl e"
  by (simp add: bnd_def)

lemma bnd_eq_Inr: "bnd m f = Inr y \<longleftrightarrow> (\<exists>x. m = Inr x \<and> f x = Inr y)"
  by (cases m) simp_all

lemma js_get_total: "js_get v k = Inr a \<Longrightarrow> \<exists>b. js_get v k' = Inr b"
  by (cases v) auto

lemma js_prop_update: "js_prop (JObj (AList.update k v kvs)) k = v"
  by (simp add: js_prop_def update_conv')

text \<open>A numeric key stands for its numeral: \<^verbatim>\<open>users[42]\<close> is \<^verbatim>\<open>users["42"]\<close>.\<close>

lemma numeric_key_is_coerced:
  "js_index (JObj [(''42'', raw_user_42)]) (JNum 42) = Inr raw_user_42"
  by code_simp

lemma sequence_map_Inr:
  assumes "sequence (map f xs) = Inr ns"
    and "\<And>x n. x \<in> set xs \<Longrightarrow> f x = Inr n \<Longrightarrow> g n = h x"
  shows "map g ns = map h xs"
  using assms
  by (induction xs arbitrary: ns) (auto split: sum.splits)

lemma sequence_map_total:
  assumes "\<And>x. x \<in> set xs \<Longrightarrow> \<exists>n. f x = Inr n"
  shows "\<exists>ns. sequence (map f xs) = Inr ns"
  using assms
proof (induction xs)
  case Nil
  show ?case by simp
next
  case (Cons x xs)
  then obtain n ns where "f x = Inr n" "sequence (map f xs) = Inr ns"
    by (meson list.set_intros)
  then show ?case by simp
qed

section \<open>The race\<close>

text \<open>Replies that arrive once the timer has fired: each returns false and posts a followup.\<close>

lemma late_replies:
  assumes "timedOut w"
  shows "foldl (step i) w (map Reply rs) = w\<lparr>trace := trace w @ map (followup i) rs\<rparr>"
    and "attempts i w (map Reply rs) = map (\<lambda>r. False) rs"
  using assms
  by (induction rs arbitrary: w) (simp_all add: reply_def syncHandle_reply_def)

text \<open>
  Replies that arrive before the timer when the promise is fulfilled already: each returns
  true, and resolving again changes nothing.
\<close>

lemma early_replies_fulfilled:
  assumes "\<not> timedOut w" and "directPromise w = Fulfilled x"
  shows "foldl (step i) w (map Reply rs) = w"
    and "attempts i w (map Reply rs) = map (\<lambda>r. True) rs"
  using assms
  by (induction rs arbitrary: w) (simp_all add: reply_def syncHandle_reply_def resolve_def)

lemma first_reply:
  "reply i r (initial_race i) =
     \<lparr>timedOut = False, directPromise = Fulfilled (immediate r),
      trace = [Emit_interactionCreate i, Returned (Some (immediate r))]\<rparr>"
  by (simp add: initial_race_def reply_def syncHandle_reply_def resolve_def)

lemma attempts_append:
  "attempts i w (evs @ evs') = attempts i w evs @ attempts i (foldl (step i) w evs) evs'"
  by (induction i w evs rule: attempts.induct) simp_all

lemma run_timeline:
  "run i (timeline sched) =
     \<lparr>timedOut = True, directPromise = Fulfilled (first_response sched),
      trace = Emit_interactionCreate i # Returned (Some (first_response sched)) #
              map (followup i) (after_timer sched)\<rparr>"
proof (cases "before_timer sched")
  case Nil
  then show ?thesis
    by (simp add: run_def timeline_def initial_race_def first_response_def timer_callback_def
        resolve_def late_replies)
next
  case (Cons r rs)
  have "foldl (step i) (reply i r (initial_race i)) (map Reply rs) = reply i r (initial_race i)"
    by (rule early_replies_fulfilled(1)) (simp_all add: first_reply)
  with Cons show ?thesis
    by (simp add: run_def timeline_def first_response_def timer_callback_def
        resolve_def late_replies first_reply)
qed

lemma attempts_timeline:
  "attempts i (initial_race i) (timeline sched) =
     map (\<lambda>r. True) (before_timer sched) @ map (\<lambda>r. False) (after_timer sched)"
proof -
  let ?w = "foldl (step i) (initial_race i) (map Reply (before_timer sched))"
  have early: "attempts i (initial_race i) (map Reply (before_timer sched)) =
      map (\<lambda>r. True) (before_timer sched)"
  proof (cases "before_timer sched")
    case Nil
    then show ?thesis by simp
  next
    case (Cons r rs)
    have "attempts i (reply i r (initial_race i)) (map Reply rs) = map (\<lambda>r. True) rs"
      by (rule early_replies_fulfilled(2) [where x = "immediate r"]) (simp_all add: first_reply)
    with Cons show ?thesis
      by (simp add: initial_race_def syncHandle_reply_def)
  qed
  have "timedOut (timer_callback ?w)"
    by (simp add: timer_callback_def resolve_def split: promise.splits)
  then have "attempts i (timer_callback ?w) (map Reply (after_timer sched)) =
      map (\<lambda>r. False) (after_timer sched)"
    by (rule late_replies(2))
  with early show ?thesis
    by (simp add: timeline_def attempts_append)
qed

lemma handle_command:
  assumes "js_get data ''type'' = Inr (JNum InteractionType_APPLICATION_COMMAND)"
    and "CommandInteraction cl data = Inr i"
  shows "handle cl data sched =
           Inr (Emit_interactionCreate i # Returned (Some (first_response sched)) #
                  map (followup i) (after_timer sched),
                Fulfilled (Some (first_response sched)))"
  using assms
  by (simp add: handle_def InteractionType_PING_def InteractionType_APPLICATION_COMMAND_def
      run_timeline)

lemma example_constructed: "CommandInteraction bare_client example_command = Inr example_interaction"
  by (simp add: CommandInteraction_def bare_client_def example_command_def
      example_interaction_def three_levels_def three_levels_resolved_def js_array_map_def
      js_prop_def option_type_defs ApplicationCommandOptionType_at_def map_opt.simps)

lemma example_command_type:
  "js_get example_command ''type'' = Inr (JNum InteractionType_APPLICATION_COMMAND)"
  by (simp add: example_command_def InteractionType_APPLICATION_COMMAND_def)

text \<open>
  C1 (as amended). On one reply channel the calls of \<^verbatim>\<open>syncHandle.reply\<close> return true for
  every reply that arrives before the timer fires and false for every reply that arrives
  after it. The promise is fulfilled once, by the first reply when one arrives before the
  timer and by the timer otherwise, so the first call's return value tells whether it won
  the race. Exactly the replies that arrive after the timer are sent as followups; a second
  reply before the timer returns true again and is not.
\<close>

theorem reply_returns_false_after_timer:
  "attempts i (initial_race i) (timeline sched) =
     map (\<lambda>r. True) (before_timer sched) @ map (\<lambda>r. False) (after_timer sched)
   \<and> directPromise (run i (timeline sched)) = Fulfilled (first_response sched)
   \<and> trace (run i (timeline sched)) =
       Emit_interactionCreate i # Returned (Some (first_response sched)) #
       map (followup i) (after_timer sched)"
  by (simp add: attempts_timeline run_timeline)

theorem reply_returns_false_after_timer_witness:
  "attempts example_interaction (initial_race example_interaction)
     (timeline \<lparr>before_timer = [first_message], after_timer = [second_message]\<rparr>) = [True, False]
   \<and> directPromise (run example_interaction
       (timeline \<lparr>before_timer = [first_message], after_timer = [second_message]\<rparr>)) =
       Fulfilled (immediate first_message)
   \<and> trace (run example_interaction
       (timeline \<lparr>before_timer = [first_message], after_timer = [second_message]\<rparr>)) =
       [Emit_interactionCreate example_interaction, Returned (Some (immediate first_message)),
        followup example_interaction second_message]"
  using reply_returns_false_after_timer
    [of example_interaction "\<lparr>before_timer = [first_message], after_timer = [second_message]\<rparr>"]
  by (simp add: first_response_def)

text \<open>
  C1 as stated fails: two replies that both arrive before the timer. The second call
  returns true, not false, and no followup is made for it; the acknowledgment stays the
  first reply's.
\<close>

theorem second_reply_before_timer_returns_true:
  "attempts example_interaction (initial_race example_interaction)
     (timeline \<lparr>before_timer = [first_message, second_message], after_timer = []\<rparr>) = [True, True]
   \<and> trace (run example_interaction
       (timeline \<lparr>before_timer = [first_message, second_message], after_timer = []\<rparr>)) =
       [Emit_interactionCreate example_interaction, Returned (Some (immediate first_message))]"
  by (simp add: attempts_timeline run_timeline first_response_def)

text \<open>
  C2. A command whose interaction is constructed, and a reply that arrives at
  \<^verbatim>\<open>syncHandle.reply\<close> before the timer fires and before any other reply, the race being
  pending: \<^verbatim>\<open>handle\<close> returns the envelope \<^verbatim>\<open>CHANNEL_MESSAGE_WITH_SOURCE\<close> carrying the
  data of that reply, and the only followup calls are those of replies that arrive after
  the timer; none is made for this reply.
\<close>

theorem reply_within_window_is_immediate:
  assumes "js_get data ''type'' = Inr (JNum InteractionType_APPLICATION_COMMAND)"
    and "CommandInteraction cl data = Inr i"
    and "before_timer sched = resolved # later"
  shows "handle cl data sched =
           Inr (Emit_interactionCreate i #
                Returned (Some \<lparr>rtype = CHANNEL_MESSAGE_WITH_SOURCE,
                                 rdata = Some (msg_data resolved)\<rparr>) #
                map (followup i) (after_timer sched),
                Fulfilled (Some \<lparr>rtype = CHANNEL_MESSAGE_WITH_SOURCE,
                                  rdata = Some (msg_data resolved)\<rparr>))
         \<and> trace (reply i resolved (initial_race i)) =
             [Emit_interactionCreate i,
              Returned (Some \<lparr>rtype = CHANNEL_MESSAGE_WITH_SOURCE,
                               rdata = Some (msg_data resolved)\<rparr>)]"
  using assms
  by (simp add: handle_command first_response_def first_reply immediate_def)

theorem reply_within_window_is_immediate_witness:
  "handle bare_client example_command \<lparr>before_timer = [first_message], after_timer = []\<rparr> =
     Inr ([Emit_interactionCreate example_interaction,
           Returned (Some \<lparr>rtype = CHANNEL_MESSAGE_WITH_SOURCE,
                            rdata = Some (JObj [(''content'', JStr ''hi!'')])\<rparr>)],
          Fulfilled (Some \<lparr>rtype = CHANNEL_MESSAGE_WITH_SOURCE,
                            rdata = Some (JObj [(''content'', JStr ''hi!'')])\<rparr>))"
proof -
  have "before_timer \<lparr>before_timer = [first_message], after_timer = []\<rparr> = first_message # []"
    by simp
  from reply_within_window_is_immediate [OF example_command_type example_constructed this]
  show ?thesis by (simp add: first_message_def)
qed

text \<open>
  C3. A command whose interaction is constructed, and a handler whose one reply arrives
  after the timer has fired: \<^verbatim>\<open>handle\<close> returns the envelope
  \<^verbatim>\<open>DEFERRED_CHANNEL_MESSAGE_WITH_SOURCE\<close> with no data, and after that return exactly
  one call is made, the post to the webhook endpoint of the interaction's application
  identifier and token, unauthenticated, with the data and files of the reply and
  \<^verbatim>\<open>wait\<close> set.
\<close>

theorem reply_after_timer_is_deferred_then_followed_up:
  assumes "js_get data ''type'' = Inr (JNum InteractionType_APPLICATION_COMMAND)"
    and "CommandInteraction cl data = Inr i"
    and "before_timer sched = []" and "after_timer sched = [resolved]"
  shows "handle cl data sched =
           Inr ([Emit_interactionCreate i,
                 Returned (Some \<lparr>rtype = DEFERRED_CHANNEL_MESSAGE_WITH_SOURCE, rdata = None\<rparr>),
                 Webhook_post (applicationID (base i)) (token (base i)) False
                   (msg_data resolved) (msg_files resolved) True],
                Fulfilled (Some \<lparr>rtype = DEFERRED_CHANNEL_MESSAGE_WITH_SOURCE, rdata = None\<rparr>))"
  using assms
  by (simp add: handle_command first_response_def deferred_def followup_def)

theorem reply_after_timer_is_deferred_then_followed_up_witness:
  "handle bare_client example_command \<lparr>before_timer = [], after_timer = [first_message]\<rparr> =
     Inr ([Emit_interactionCreate example_interaction,
           Returned (Some \<lparr>rtype = DEFERRED_CHANNEL_MESSAGE_WITH_SOURCE, rdata = None\<rparr>),
           Webhook_post (JStr ''app'') (JStr ''tok'') False
             (JObj [(''content'', JStr ''hi!'')]) (JArr []) True],
          Fulfilled (Some \<lparr>rtype = DEFERRED_CHANNEL_MESSAGE_WITH_SOURCE, rdata = None\<rparr>))"
proof -
  have "before_timer \<lparr>before_timer = [], after_timer = [first_message]\<rparr> = []"
    and "after_timer \<lparr>before_timer = [], after_timer = [first_message]\<rparr> = [first_message]"
    by simp_all
  from reply_after_timer_is_deferred_then_followed_up
    [OF example_command_type example_constructed this]
  show ?thesis by (simp add: first_message_def example_interaction_def)
qed

section \<open>The option tree\<close>

lemma map_opt_shape:
  "map_opt cl g data opt = Inr n \<Longrightarrow> node_shape n = raw_shape opt"
proof (induction cl g data opt arbitrary: n rule: map_opt.induct)
  case (1 cl g data opt)
  from "1.prems" obtain t where t: "js_get opt ''type'' = Inr t"
    by (auto simp: bnd_eq_Inr map_opt.simps [of cl g data opt])
  then have pt: "js_prop opt ''type'' = t"
    by (simp add: js_prop_def)
  show ?case
  proof (cases "t = JNum SUB_COMMAND \<or> t = JNum SUB_COMMAND_GROUP")
    case True
    with "1.prems" t obtain name opts os where
      name: "js_get opt ''name'' = Inr name" and opts: "js_get opt ''options'' = Inr opts"
      and os: "js_array_map (map_opt cl g data) opts = Inr os"
      and n: "n = NOptions name (ApplicationCommandOptionType_at t) os"
      by (auto simp: bnd_eq_Inr map_opt.simps [of cl g data opt])
    from os obtain xs where xs: "opts = JArr xs"
      and seq: "sequence (map (map_opt cl g data) xs) = Inr os"
      by (auto simp: js_array_map_def split: jv.splits)
    have "map node_shape os = map raw_shape xs"
      using seq
    proof (rule sequence_map_Inr)
      fix x m
      assume "x \<in> set xs" "map_opt cl g data x = Inr m"
      then show "node_shape m = raw_shape x"
        using "1.IH" t True name opts xs by blast
    qed
    with True n name opts xs pt show ?thesis
      by (simp add: raw_shape.simps [of opt] js_prop_def)
  next
    case False
    with "1.prems" t pt show ?thesis
      by (auto simp: bnd_eq_Inr raw_shape.simps [of opt] js_prop_def
          map_opt.simps [of cl g data opt] ApplicationCommandOptionType_at_def
          split: if_splits)
  qed
qed

lemma plain_tree_resolves:
  "plain_tree opt \<Longrightarrow> \<exists>n. map_opt cl g data opt = Inr n"
proof (induction cl g data opt rule: map_opt.induct)
  case (1 cl g data opt)
  from "1.prems" obtain t where t: "js_get opt ''type'' = Inr t"
    by (auto simp: plain_tree.simps [of opt] split: sum.splits)
  from t obtain name where name: "js_get opt ''name'' = Inr name"
    by (blast dest: js_get_total)
  from t obtain v where v: "js_get opt ''value'' = Inr v"
    by (blast dest: js_get_total)
  show ?case
  proof (cases "t = JNum SUB_COMMAND \<or> t = JNum SUB_COMMAND_GROUP")
    case True
    with "1.prems" t obtain xs where xs: "js_prop opt ''options'' = JArr xs"
      and all: "list_all plain_tree xs"
      by (auto simp: plain_tree.simps [of opt] split: jv.splits)
    from xs have opts: "js_get opt ''options'' = Inr (JArr xs)"
      by (auto simp: js_prop_def split: sum.splits)
    have "\<exists>os. sequence (map (map_opt cl g data) xs) = Inr os"
    proof (rule sequence_map_total)
      fix x
      assume "x \<in> set xs"
      with all have "plain_tree x"
        by (simp add: list_all_iff)
      with \<open>x \<in> set xs\<close> show "\<exists>n. map_opt cl g data x = Inr n"
        using "1.IH" t True name opts by blast
    qed
    then obtain os where "sequence (map (map_opt cl g data) xs) = Inr os" ..
    with True t name opts show ?thesis
      by (auto simp: js_array_map_def map_opt.simps [of cl g data opt])
  next
    case False
    with "1.prems" t have "t \<noteq> JNum USER" "t \<noteq> JNum CHANNEL" "t \<noteq> JNum ROLE"
      by (auto simp: plain_tree.simps [of opt])
    with False t name v show ?thesis
      by (auto simp: map_opt.simps [of cl g data opt])
  qed
qed

lemma constructor_shapes:
  assumes "CommandInteraction cl data = Inr i"
  shows "\<exists>xs. js_prop (js_prop data ''data'') ''options'' = JArr xs
            \<and> map node_shape (options i) = map raw_shape xs"
proof -
  from assms obtain b d cid cname opts os where d: "js_get data ''data'' = Inr d"
    and opts: "js_get d ''options'' = Inr opts"
    and os: "js_array_map (map_opt cl (guild b) data) opts = Inr os"
    and "i = \<lparr>base = b, commandID = cid, commandName = cname, options = os\<rparr>"
    by (auto simp: CommandInteraction_def bnd_eq_Inr)
  then have i: "options i = os"
    by simp
  from os obtain xs where xs: "opts = JArr xs"
    and seq: "sequence (map (map_opt cl (guild b) data) xs) = Inr os"
    by (auto simp: js_array_map_def split: jv.splits)
  from seq have "map node_shape os = map raw_shape xs"
    by (rule sequence_map_Inr) (rule map_opt_shape)
  with d opts xs i show ?thesis
    by (simp add: js_prop_def)
qed

text \<open>The constructor returns whenever its base constructor does and the options are an
  array of trees that refer to no entity.\<close>

lemma constructor_total:
  assumes "Interaction_super cl data = Inr b"
    and "js_get data ''data'' = Inr d"
    and "js_get d ''options'' = Inr (JArr xs)"
    and "list_all plain_tree xs"
  shows "\<exists>i. CommandInteraction cl data = Inr i"
proof -
  from assms(3) obtain cid cname where "js_get d ''id'' = Inr cid" "js_get d ''name'' = Inr cname"
    by (meson js_get_total)
  moreover have "\<exists>os. sequence (map (map_opt cl (guild b) data) xs) = Inr os"
  proof (rule sequence_map_total)
    fix x
    assume "x \<in> set xs"
    with assms(4) have "plain_tree x"
      by (simp add: list_all_iff)
    then show "\<exists>n. map_opt cl (guild b) data x = Inr n"
      by (rule plain_tree_resolves)
  qed
  ultimately show ?thesis
    using assms(1-3) by (auto simp: CommandInteraction_def js_array_map_def)
qed

lemma three_levels_resolve:
  "map_opt bare_client None example_command three_levels = Inr three_levels_resolved"
  by (simp add: three_levels_def three_levels_resolved_def js_array_map_def
      option_type_defs ApplicationCommandOptionType_at_def map_opt.simps)

lemma three_levels_shape:
  "raw_shape three_levels =
     Shape (JStr ''admin'') (JStr ''SUB_COMMAND_GROUP'')
       [Shape (JStr ''ban'') (JStr ''SUB_COMMAND'')
         [Shape (JStr ''reason'') (JStr ''STRING'') [],
          Shape (JStr ''days'') (JStr ''INTEGER'') []]]"
  by (simp add: three_levels_def raw_shape.simps js_prop_def option_type_defs
      ApplicationCommandOptionType_at_def)

text \<open>
  C7. Whatever tree of raw options \<^verbatim>\<open>map\<close> resolves, the result has the skeleton of
  the input: the same names and kinds, containers nested as deep, children in the same
  order at every level; so has the list \<^verbatim>\<open>this.options\<close> the constructor builds from
  \<^verbatim>\<open>data.data.options\<close>. A tree of containers and other nodes that refers to no entity
  always resolves.
\<close>

theorem option_tree_keeps_nesting_and_order:
  "(map_opt cl g data opt = Inr n \<longrightarrow>
      node_shape n = raw_shape opt \<and> depth (node_shape n) = depth (raw_shape opt))
   \<and> (CommandInteraction cl data = Inr i \<longrightarrow>
        (\<exists>xs. js_prop (js_prop data ''data'') ''options'' = JArr xs
             \<and> map node_shape (options i) = map raw_shape xs))
   \<and> (plain_tree opt \<longrightarrow> (\<exists>m. map_opt cl g data opt = Inr m))"
  using map_opt_shape [of cl g data opt n] constructor_shapes [of cl data i]
    plain_tree_resolves [of opt cl g data]
  by simp

theorem option_tree_keeps_nesting_and_order_witness:
  "map_opt bare_client None example_command three_levels = Inr three_levels_resolved
   \<and> node_shape three_levels_resolved =
       Shape (JStr ''admin'') (JStr ''SUB_COMMAND_GROUP'')
         [Shape (JStr ''ban'') (JStr ''SUB_COMMAND'')
           [Shape (JStr ''reason'') (JStr ''STRING'') [],
            Shape (JStr ''days'') (JStr ''INTEGER'') []]]
   \<and> node_shape three_levels_resolved = raw_shape three_levels
   \<and> depth (raw_shape three_levels) = 3
   \<and> map node_shape (options example_interaction) = [raw_shape three_levels]"
  using option_tree_keeps_nesting_and_order
    [where cl = bare_client and g = None and data = example_command and opt = three_levels
       and n = three_levels_resolved and i = example_interaction]
  by (simp add: three_levels_resolve three_levels_shape example_constructed
      example_interaction_def three_levels_resolved_def)

text \<open>
  C8. A raw option whose \<^verbatim>\<open>type\<close> can be read and is none of the eight recognised codes
  is returned as it is, and nothing is raised.
\<close>

theorem unrecognised_kind_is_returned_unchanged:
  assumes "js_get opt ''type'' = Inr t"
    and "t \<notin> JNum ` {SUB_COMMAND, SUB_COMMAND_GROUP, STRING, INTEGER, BOOLEAN, USER, CHANNEL, ROLE}"
  shows "map_opt cl g data opt = Inr (NRaw opt)"
  using assms by (auto simp: map_opt.simps [of cl g data opt])

theorem unrecognised_kind_is_returned_unchanged_witness:
  "map_opt bare_client None JNull future_option = Inr (NRaw future_option)"
proof (rule unrecognised_kind_is_returned_unchanged)
  show "js_get future_option ''type'' = Inr (JNum 9)"
    by (simp add: future_option_def)
  show "JNum 9 \<notin> JNum ` {SUB_COMMAND, SUB_COMMAND_GROUP, STRING, INTEGER, BOOLEAN, USER, CHANNEL, ROLE}"
    by (auto simp: option_type_defs)
qed

text \<open>
  C5 (as amended). A user option whose value keys a user payload and a member payload (an
  object) in the tables. In an interaction that has a guild, the member is resolved by the
  guild's member manager from the member payload with its \<^verbatim>\<open>user\<close> property set to the
  user payload, the user by the user resolver from the user payload; so, the member manager
  taking a member's user from that property, whatever node is produced holds a member that
  is \<^verbatim>\<open>null\<close> or has the node's user as its user. In an interaction that has no guild,
  the node holds the resolved user and the member \<^verbatim>\<open>null\<close>.
\<close>

theorem member_of_guild_has_the_resolved_user:
  assumes "js_get opt ''type'' = Inr (JNum USER)"
    and "js_get opt ''value'' = Inr v" and "js_get opt ''name'' = Inr name"
    and "js_get data ''data'' = Inr d" and "js_get d ''resolved'' = Inr res"
    and "js_get res ''users'' = Inr ut" and "js_index ut v = Inr rawUser"
    and "js_get res ''members'' = Inr mt" and "js_index mt v = Inr (JObj kvs)"
  shows "map_opt cl (Some gu) data opt =
           bnd (resolve_user cl rawUser) (\<lambda>u.
           bnd (members_add gu (JObj (AList.update ''user'' rawUser kvs))) (\<lambda>m.
           Inr (NUser name (JStr ''USER'') u m)))
         \<and> (member_user_from_payload user_of cl gu \<longrightarrow>
              (\<forall>n. map_opt cl (Some gu) data opt = Inr n \<longrightarrow>
                 (\<exists>u m. n = NUser name (JStr ''USER'') u m
                        \<and> (case m of None \<Rightarrow> True | Some member \<Rightarrow> user_of member = u))))
         \<and> map_opt cl None data opt =
             bnd (resolve_user cl rawUser) (\<lambda>u. Inr (NUser name (JStr ''USER'') u None))"
proof (intro conjI impI allI)
  show with_guild: "map_opt cl (Some gu) data opt =
           bnd (resolve_user cl rawUser) (\<lambda>u.
           bnd (members_add gu (JObj (AList.update ''user'' rawUser kvs))) (\<lambda>m.
           Inr (NUser name (JStr ''USER'') u m)))"
    using assms
    by (simp add: option_type_defs ApplicationCommandOptionType_at_def resolve_user_def
        map_opt.simps [of cl "Some gu" data opt])
  show "map_opt cl None data opt =
      bnd (resolve_user cl rawUser) (\<lambda>u. Inr (NUser name (JStr ''USER'') u None))"
    using assms
    by (simp add: option_type_defs ApplicationCommandOptionType_at_def resolve_user_def
        map_opt.simps [of cl None data opt])
  fix n
  assume from_payload: "member_user_from_payload user_of cl gu"
    and n: "map_opt cl (Some gu) data opt = Inr n"
  from n obtain u m where u: "resolve_user cl rawUser = Inr u"
    and m: "members_add gu (JObj (AList.update ''user'' rawUser kvs)) = Inr m"
    and node: "n = NUser name (JStr ''USER'') u m"
    unfolding with_guild by (auto simp: bnd_eq_Inr)
  have "user_of member = u" if "m = Some member" for member
  proof -
    from from_payload m that
    have "resolve_user cl (js_prop (JObj (AList.update ''user'' rawUser kvs)) ''user'') =
        Inr (user_of member)"
      unfolding member_user_from_payload_def by blast
    with u show ?thesis
      by (simp add: js_prop_update)
  qed
  with node show "\<exists>u m. n = NUser name (JStr ''USER'') u m
      \<and> (case m of None \<Rightarrow> True | Some member \<Rightarrow> user_of member = u)"
    by (auto split: option.splits)
qed

lemma example_member_user_from_payload:
  "member_user_from_payload entity_user full_client example_guild"
  by (auto simp: member_user_from_payload_def entity_user_def full_client_def
      example_guild_def resolve_user_def)

lemma user_and_member_tables:
  "js_get payload_with_user_and_member ''data'' =
     Inr (JObj [(''resolved'', JObj
       [(''users'', JObj [(''42'', raw_user_42)]),
        (''members'', JObj [(''42'', JObj [(''nick'', JStr ''countess'')])])])])"
  "js_get (JObj [(''resolved'', JObj
       [(''users'', JObj [(''42'', raw_user_42)]),
        (''members'', JObj [(''42'', JObj [(''nick'', JStr ''countess'')])])])]) ''resolved'' =
     Inr (JObj [(''users'', JObj [(''42'', raw_user_42)]),
                (''members'', JObj [(''42'', JObj [(''nick'', JStr ''countess'')])])])"
  "js_get (JObj [(''users'', JObj [(''42'', raw_user_42)]),
                 (''members'', JObj [(''42'', JObj [(''nick'', JStr ''countess'')])])]) ''users''
     = Inr (JObj [(''42'', raw_user_42)])"
  "js_index (JObj [(''42'', raw_user_42)]) (JStr ''42'') = Inr raw_user_42"
  "js_get (JObj [(''users'', JObj [(''42'', raw_user_42)]),
                 (''members'', JObj [(''42'', JObj [(''nick'', JStr ''countess'')])])]) ''members''
     = Inr (JObj [(''42'', JObj [(''nick'', JStr ''countess'')])])"
  "js_index (JObj [(''42'', JObj [(''nick'', JStr ''countess'')])]) (JStr ''42'') =
     Inr (JObj [(''nick'', JStr ''countess'')])"
  by (simp_all add: payload_with_user_and_member_def)

lemma user_option_fields:
  "js_get user_option ''type'' = Inr (JNum USER)"
  "js_get user_option ''value'' = Inr (JStr ''42'')"
  "js_get user_option ''name'' = Inr (JStr ''target'')"
  by (simp_all add: user_option_def USER_def)

theorem member_of_guild_has_the_resolved_user_witness:
  "map_opt full_client (Some example_guild) payload_with_user_and_member user_option =
     Inr (NUser (JStr ''target'') (JStr ''USER'') (Entity ''client.users.add'' raw_user_42)
            (Some (Entity ''guild.members.add''
               (JObj [(''nick'', JStr ''countess''), (''user'', raw_user_42)]))))
   \<and> entity_user (Entity ''guild.members.add''
        (JObj [(''nick'', JStr ''countess''), (''user'', raw_user_42)])) =
      Entity ''client.users.add'' raw_user_42
   \<and> map_opt full_client None payload_with_user_and_member user_option =
     Inr (NUser (JStr ''target'') (JStr ''USER'') (Entity ''client.users.add'' raw_user_42) None)"
proof -
  note inst = member_of_guild_has_the_resolved_user
    [OF user_option_fields user_and_member_tables,
      where cl = full_client and gu = example_guild and user_of = entity_user]
  have resolved: "resolve_user full_client raw_user_42 = Inr (Entity ''client.users.add'' raw_user_42)"
    by (simp add: resolve_user_def full_client_def)
  have member: "members_add example_guild
      (JObj (AList.update ''user'' raw_user_42 [(''nick'', JStr ''countess'')])) =
      Inr (Some (Entity ''guild.members.add''
        (JObj [(''nick'', JStr ''countess''), (''user'', raw_user_42)])))"
    by (simp add: example_guild_def)
  from inst resolved member
  have node: "map_opt full_client (Some example_guild) payload_with_user_and_member user_option =
     Inr (NUser (JStr ''target'') (JStr ''USER'') (Entity ''client.users.add'' raw_user_42)
            (Some (Entity ''guild.members.add''
               (JObj [(''nick'', JStr ''countess''), (''user'', raw_user_42)]))))"
    by simp
  from inst resolved
  have without: "map_opt full_client None payload_with_user_and_member user_option =
     Inr (NUser (JStr ''target'') (JStr ''USER'') (Entity ''client.users.add'' raw_user_42) None)"
    by simp
  from inst example_member_user_from_payload node
  have "entity_user (Entity ''guild.members.add''
        (JObj [(''nick'', JStr ''countess''), (''user'', raw_user_42)])) =
      Entity ''client.users.add'' raw_user_42"
    by auto
  with node without show ?thesis
    by simp
qed

text \<open>
  C5 as stated fails: the same option and payloads in an interaction with no guild. The
  user is resolved and the member is \<^verbatim>\<open>null\<close>, so there is no member whose user could
  equal it.
\<close>

theorem member_is_null_without_guild:
  "js_index (JObj [(''42'', raw_user_42)]) (JStr ''42'') = Inr raw_user_42
   \<and> js_index (JObj [(''42'', JObj [(''nick'', JStr ''countess'')])]) (JStr ''42'') =
       Inr (JObj [(''nick'', JStr ''countess'')])
   \<and> map_opt bare_client None payload_with_user_and_member user_option =
       Inr (NUser (JStr ''target'') (JStr ''USER'') (Entity ''new User'' raw_user_42) None)"
  by (simp add: user_option_def payload_with_user_and_member_def bare_client_def
      option_type_defs ApplicationCommandOptionType_at_def map_opt.simps)






section \<open>The webhook transport\<close>

text \<open>
  A request with no signature header has nothing to verify: \<^verbatim>\<open>Buffer.from\<close> throws and
  the middleware ends there, with no response.
\<close>

lemma middleware_without_signature_header:
  assumes "req_get req ''x-signature-ed25519'' = None"
  shows "middleware wh cl req sched = Inl TypeError"
  using assms by (simp add: middleware_def Buffer_from_hex_def)

text \<open>
  Whatever keeps a request from being validated (a header that is not there, a verifier
  that throws or returns false), the middleware answers 401 or throws; it does nothing else,
  and nothing that depends on the client or on the listeners.
\<close>

lemma unvalidated_request_is_never_dispatched:
  assumes "\<not> validated wh req"
  shows "middleware wh cl req sched = Inr [Res_end 401 No_body]
         \<or> (\<exists>e. middleware wh cl req sched = Inl e)"
proof (cases "req_get req ''x-signature-ed25519''")
  case None
  then show ?thesis
    by (simp add: middleware_def Buffer_from_hex_def)
next
  case (Some signature)
  show ?thesis
  proof (cases "req_get req ''x-signature-timestamp''")
    case None
    with Some show ?thesis
      by (simp add: middleware_def Buffer_from_hex_def Buffer_from_def)
  next
    case (Some timestamp)
    with \<open>req_get req ''x-signature-ed25519'' = Some signature\<close> assms show ?thesis
      by (cases "sodium_verify wh (hex_bytes signature) (timestamp @ concat (chunks req))
            (publicKey wh)")
        (auto simp: middleware_def Buffer_from_hex_def Buffer_from_def validated_def)
  qed
qed

text \<open>
  C4. A webhook request that carries a signature and a timestamp, the verifier finding the
  signature not valid over the timestamp bytes followed by the body bytes under the
  configured key: all the middleware does is respond with status 401 and no body. There is
  no call of \<^verbatim>\<open>handle\<close>: nothing is parsed, constructed, emitted or returned.
\<close>

theorem invalid_signature_is_unauthorized:
  assumes "req_get req ''x-signature-ed25519'' = Some signature"
    and "req_get req ''x-signature-timestamp'' = Some timestamp"
    and "sodium_verify wh (hex_bytes signature) (timestamp @ concat (chunks req)) (publicKey wh)
           = Inr False"
  shows "middleware wh cl req sched = Inr [Res_end 401 No_body]"
  using assms by (simp add: middleware_def Buffer_from_hex_def Buffer_from_def)

theorem invalid_signature_is_unauthorized_witness:
  "middleware example_webhook bare_client
     \<lparr>req_get = [''x-signature-ed25519'' \<mapsto> ''4a'', ''x-signature-timestamp'' \<mapsto> ''1700000000''],
      chunks = [''{'', ''}'']\<rparr>
     \<lparr>before_timer = [], after_timer = []\<rparr>
   = Inr [Res_end 401 No_body]"
proof (rule invalid_signature_is_unauthorized)
  show "req_get \<lparr>req_get = [''x-signature-ed25519'' \<mapsto> ''4a'',
                            ''x-signature-timestamp'' \<mapsto> ''1700000000''],
                 chunks = [''{'', ''}'']\<rparr> ''x-signature-ed25519'' = Some ''4a''"
    by simp
  show "req_get \<lparr>req_get = [''x-signature-ed25519'' \<mapsto> ''4a'',
                            ''x-signature-timestamp'' \<mapsto> ''1700000000''],
                 chunks = [''{'', ''}'']\<rparr> ''x-signature-timestamp'' = Some ''1700000000''"
    by simp
  show "sodium_verify example_webhook (hex_bytes ''4a'')
          (''1700000000'' @ concat (chunks \<lparr>req_get = [''x-signature-ed25519'' \<mapsto> ''4a'',
                            ''x-signature-timestamp'' \<mapsto> ''1700000000''],
                 chunks = [''{'', ''}'']\<rparr>)) (publicKey example_webhook) = Inr False"
    by code_simp
qed

section \<open>Dispatch\<close>

text \<open>
  C9. A payload whose \<^verbatim>\<open>type\<close> can be read and is neither \<^verbatim>\<open>PING\<close> nor
  \<^verbatim>\<open>APPLICATION_COMMAND\<close>, delivered by the gateway: \<^verbatim>\<open>handle\<close> emits the diagnostic and
  returns \<^verbatim>\<open>undefined\<close>, and \<^verbatim>\<open>handleFromGateway\<close> then posts to the callback endpoint of
  the interaction's identifier and token with \<^verbatim>\<open>data\<close> that absent result and \<^verbatim>\<open>wait\<close> set.
\<close>

theorem unknown_kind_is_still_posted_from_gateway:
  assumes "js_get data ''type'' = Inr t"
    and "t \<noteq> JNum InteractionType_PING" and "t \<noteq> JNum InteractionType_APPLICATION_COMMAND"
    and "js_get data ''id'' = Inr i" and "js_get data ''token'' = Inr tok"
  shows "handle cl data sched = Inr ([Emit_debug t, Returned None], Fulfilled None)
         \<and> handleFromGateway cl data sched =
             Inr [Emit_debug t, Returned None, Callback_post i tok None True]"
  using assms by (simp add: handleFromGateway_def handle_def)

theorem unknown_kind_is_still_posted_from_gateway_witness:
  "handleFromGateway bare_client unknown_interaction \<lparr>before_timer = [], after_timer = []\<rparr> =
     Inr [Emit_debug (JNum 3), Returned None,
          Callback_post (JStr ''102'') (JStr ''tok'') None True]"
proof -
  have "js_get unknown_interaction ''type'' = Inr (JNum 3)"
    and "JNum 3 \<noteq> JNum InteractionType_PING"
    and "JNum 3 \<noteq> JNum InteractionType_APPLICATION_COMMAND"
    and "js_get unknown_interaction ''id'' = Inr (JStr ''102'')"
    and "js_get unknown_interaction ''token'' = Inr (JStr ''tok'')"
    by (simp_all add: unknown_interaction_def InteractionType_PING_def
        InteractionType_APPLICATION_COMMAND_def)
  from unknown_kind_is_still_posted_from_gateway
    [OF this, where cl = bare_client and sched = "\<lparr>before_timer = [], after_timer = []\<rparr>"]
  show ?thesis by simp
qed

text \<open>
  C10. A command payload whose \<^verbatim>\<open>data\<close> has no \<^verbatim>\<open>options\<close> field: \<^verbatim>\<open>handle\<close> does not
  return. The constructor throws, with the exception of the base constructor if that one
  throws and otherwise with the \<^verbatim>\<open>TypeError\<close> of \<^verbatim>\<open>data.data.options.map\<close>; no
  interaction is constructed, with an empty option tree or any other.
\<close>

theorem command_without_options_throws:
  assumes "js_get data ''type'' = Inr (JNum InteractionType_APPLICATION_COMMAND)"
    and "js_get data ''data'' = Inr d"
    and "js_get d ''options'' = Inr JUndefined"
  shows "handle cl data sched =
           (case Interaction_super cl data of Inl e \<Rightarrow> Inl e | Inr b \<Rightarrow> Inl TypeError)
         \<and> CommandInteraction cl data =
           (case Interaction_super cl data of Inl e \<Rightarrow> Inl e | Inr b \<Rightarrow> Inl TypeError)"
  using assms
  by (cases "Interaction_super cl data"; cases d)
    (simp_all add: handle_def CommandInteraction_def InteractionType_PING_def
      InteractionType_APPLICATION_COMMAND_def js_array_map_def)

theorem command_without_options_throws_witness:
  "handle bare_client command_without_options \<lparr>before_timer = [first_message], after_timer = []\<rparr>
     = Inl TypeError"
proof -
  have "js_get command_without_options ''type'' = Inr (JNum InteractionType_APPLICATION_COMMAND)"
    and "js_get command_without_options ''data'' =
           Inr (JObj [(''id'', JStr ''8''), (''name'', JStr ''ping'')])"
    and "js_get (JObj [(''id'', JStr ''8''), (''name'', JStr ''ping'')]) ''options'' = Inr JUndefined"
    by (simp_all add: command_without_options_def InteractionType_APPLICATION_COMMAND_def)
  from command_without_options_throws
    [OF this, where cl = bare_client
       and sched = "\<lparr>before_timer = [first_message], after_timer = []\<rparr>"]
  show ?thesis by (simp add: bare_client_def)
qed

end
